theory Spec2Isabelle
  imports Main
begin

section \<open>The upload gateway of pmWebApp (frontend/pages/api/upload.ts)\<close>

text \<open>
  The handler is effectful: it reads the request, asks the identity provider, touches the
  file system, calls the analytics backend and writes the HTTP response. The embedding makes
  this explicit. Everything the handler reads from outside is a field of the record
  \<open>world\<close>; everything it does is appended to a chronological list of \<open>event\<close>s, next to
  the set of paths that exist in the file system. A JavaScript exception is a value
  (\<open>Inl\<close> of the message, or \<open>Some\<close> message) and every \<open>try\<close>/\<open>catch\<close>/\<open>finally\<close> of the
  source is a branch of the model.
\<close>

subsection \<open>JSON values and JavaScript coercions\<close>

text \<open>
  What \<open>backendResponse.json()\<close> yields and what \<open>res.json\<close> sends. Numbers stand
  as integers: the handler tests a number for zero at most, and passes it on otherwise. The
  entries of \<open>JObj\<close> are the own properties of the parsed object, in order; a parsed
  object has no duplicate keys.
\<close>

datatype json =
    JNull
  | JBool bool
  | JNum int
  | JStr string
  | JArr "json list"
  | JObj "(string \<times> json) list"

text \<open>JavaScript truthiness of a JSON value (as tested by \<open>||\<close>).\<close>

fun truthy :: "json \<Rightarrow> bool" where
  "truthy JNull = False"
| "truthy (JBool b) = b"
| "truthy (JNum n) = (n \<noteq> 0)"
| "truthy (JStr s) = (s \<noteq> [])"
| "truthy (JArr xs) = True"
| "truthy (JObj kvs) = True"

text \<open>Truthiness of a \<open>string | null | undefined\<close>: the empty string is falsy too.\<close>

fun truthy_str :: "string option \<Rightarrow> bool" where
  "truthy_str None = False"
| "truthy_str (Some s) = (s \<noteq> [])"

text \<open>\<open>s || d\<close> on a \<open>string | null\<close>.\<close>

fun or_else :: "string option \<Rightarrow> string \<Rightarrow> string" where
  "or_else None d = d"
| "or_else (Some s) d = (if s = [] then d else s)"

text \<open>
  Reading the property \<open>k\<close> (one of \<open>success\<close>, \<open>message\<close>, \<open>data\<close>) of a parsed JSON
  value: on \<open>null\<close> the engine throws a TypeError (\<open>Inl\<close> of its message), on an object it
  yields the property or \<open>undefined\<close> (\<open>None\<close>), on every other value \<open>undefined\<close>.
\<close>

definition null_read_error :: "string \<Rightarrow> string" where
  "null_read_error k =
     ''Cannot read properties of null (reading '' @ [CHR 0x27] @ k @ [CHR 0x27] @ '')''"

fun get_prop :: "json \<Rightarrow> string \<Rightarrow> string + json option" where
  "get_prop JNull k = Inl (null_read_error k)"
| "get_prop (JObj kvs) k = Inr (map_of kvs k)"
| "get_prop v k = Inr None"

subsection \<open>Node's path.extname and String.prototype.toLowerCase\<close>

text \<open>
  \<open>path.extname\<close> (POSIX flavour) scans the path from its end. The state of the scan is
  the five local variables of Node's implementation, with \<open>-1\<close> for "not seen yet".
\<close>

record ext_scan =
  startDot :: int
  startPart :: int
  endPos :: int
  matchedSlash :: bool
  preDotState :: int

text \<open>
  \<open>ext_loop p n s\<close> runs the iterations \<open>i = n - 1, ..., 0\<close> of the loop; the \<open>break\<close>
  at a path separator returns at once.
\<close>

fun ext_loop :: "string \<Rightarrow> nat \<Rightarrow> ext_scan \<Rightarrow> ext_scan" where
  "ext_loop p 0 s = s"
| "ext_loop p (Suc i) s =
     (if p ! i = CHR ''/'' then
        (if \<not> matchedSlash s then s\<lparr>startPart := int i + 1\<rparr>
         else ext_loop p i s)
      else
        (let s1 = (if endPos s = -1 then s\<lparr>endPos := int i + 1, matchedSlash := False\<rparr> else s);
             s2 = (if p ! i = CHR ''.'' then
                     (if startDot s1 = -1 then s1\<lparr>startDot := int i\<rparr>
                      else if preDotState s1 \<noteq> 1 then s1\<lparr>preDotState := 1\<rparr>
                      else s1)
                   else if startDot s1 \<noteq> -1 then s1\<lparr>preDotState := -1\<rparr>
                   else s1)
         in ext_loop p i s2))"

definition extname :: "string \<Rightarrow> string" where
  "extname p =
     (let s = ext_loop p (length p)
                \<lparr>startDot = -1, startPart = 0, endPos = -1, matchedSlash = True, preDotState = 0\<rparr>
      in if startDot s = -1 \<or> endPos s = -1 \<or> preDotState s = 0 \<or>
            (preDotState s = 1 \<and> startDot s = endPos s - 1 \<and> startDot s = startPart s + 1)
         then []
         else drop (nat (startDot s)) (take (nat (endPos s)) p))"

text \<open>Lower-casing, on the ASCII letters (a \<open>char\<close> is a byte).\<close>

definition lower_char :: "char \<Rightarrow> char" where
  "lower_char c =
     (case map_of (zip ''ABCDEFGHIJKLMNOPQRSTUVWXYZ'' ''abcdefghijklmnopqrstuvwxyz'') c of
        None \<Rightarrow> c
      | Some l \<Rightarrow> l)"

definition toLowerCase :: "string \<Rightarrow> string" where
  "toLowerCase s = map lower_char s"

subsection \<open>The request, the environment and the effects\<close>

text \<open>The fields of a \<open>formidable.PersistentFile\<close> that the handler reads.\<close>

record pfile =
  filepath :: string
  originalFilename :: "string option"
  mimetype :: "string option"

text \<open>An entry of formidable's \<open>files\<close> object: \<open>File | File[]\<close>.\<close>

datatype upload = Single pfile | Multiple "pfile list"

text \<open>What the callback of \<open>form.parse\<close> receives: \<open>err\<close>, or the \<open>files\<close> by field name.\<close>

datatype parse_outcome = ParseError string | Parsed "(string \<times> upload) list"

text \<open>\<open>await backendResponse.json()\<close>: the parsed body, or a rejection.\<close>

datatype body_outcome = BodyJson json | BodyInvalid string

text \<open>\<open>await fetch(...)\<close>: a rejection, or a response with its status and its body.\<close>

datatype fetch_outcome = FetchThrows string | FetchResponse nat body_outcome

text \<open>
  What the handler reads from outside, one field for each source:
  \<open>req.method\<close>; the \<open>userId\<close> of \<open>getAuth(req)\<close> and what \<open>getToken()\<close> resolves to;
  \<open>process.cwd()\<close>; the paths that exist when the request arrives; whether
  \<open>fs.mkdirSync\<close> throws; what \<open>form.parse\<close> hands to its callback;
  \<open>process.env.NEXT_PUBLIC_BACKEND_API_URL\<close>; the paths the file system refuses to remove;
  and the outcome of the call of the backend.
\<close>

record world =
  req_method :: string
  userId :: "string option"
  token :: "string option"
  cwd :: string
  fs0 :: "string set"
  mkdir_fails :: bool
  parse_result :: parse_outcome
  backend_url :: "string option"
  unlink_denied :: "string set"
  fetch_result :: fetch_outcome

text \<open>
  What the handler does, one constructor for each kind of call. \<open>Respond code body\<close> is
  the call \<open>res.status(code).json(body)\<close>, which sends the response. \<open>FormParse dir\<close> is
  the call of \<open>form.parse\<close> on a form whose \<open>uploadDir\<close> is \<open>dir\<close>; \<open>Fetch\<close> carries the
  URL, the Authorization header, and the file name and content type of the part \<open>file\<close>.
\<close>

datatype event =
    SetHeader string "string list"
  | GetAuth
  | GetToken
  | ExistsSync string
  | MkdirSync string
  | FormParse string
  | ConsoleError
  | UnlinkSync string
  | ReadFileSync string
  | Fetch string string string string
  | Respond nat json

text \<open>The state threaded through the handler: what it did so far, and the paths that exist.\<close>

record st =
  trace :: "event list"
  files :: "string set"

definition emit :: "event \<Rightarrow> st \<Rightarrow> st" where
  "emit e s = s\<lparr>trace := trace s @ [e]\<rparr>"

text \<open>\<open>res.status(code).json({ message: m })\<close>\<close>

definition message_body :: "string \<Rightarrow> json" where
  "message_body m = JObj [(''message'', JStr m)]"

definition respond :: "nat \<Rightarrow> json \<Rightarrow> st \<Rightarrow> st" where
  "respond code body s = emit (Respond code body) s"

text \<open>
  \<open>fs.unlinkSync(p)\<close>: removes \<open>p\<close>, or throws when \<open>p\<close> does not exist or may not be
  removed. The second component tells whether it threw.
\<close>

definition unlinkSync :: "world \<Rightarrow> string \<Rightarrow> st \<Rightarrow> st \<times> bool" where
  "unlinkSync w p s =
     (let s' = emit (UnlinkSync p) s
      in if p \<in> files s \<and> p \<notin> unlink_denied w then (s'\<lparr>files := files s - {p}\<rparr>, False)
         else (s', True))"

text \<open>\<open>try { fs.unlinkSync(p) } catch (cleanupError) { console.error(...) }\<close>\<close>

definition unlink_logged :: "world \<Rightarrow> string \<Rightarrow> st \<Rightarrow> st" where
  "unlink_logged w p s =
     (case unlinkSync w p s of (s', threw) \<Rightarrow> if threw then emit ConsoleError s' else s')"

text \<open>\<open>try { fs.unlinkSync(p) } catch (e) { /* ignore */ }\<close>\<close>

definition unlink_ignored :: "world \<Rightarrow> string \<Rightarrow> st \<Rightarrow> st" where
  "unlink_ignored w p s = fst (unlinkSync w p s)"

subsection \<open>File type validation (lines 90 to 102)\<close>

definition allowedMimeTypes :: "string list" where
  "allowedMimeTypes =
     [''text/csv'', ''application/xml'', ''application/xes'', ''application/vnd.ms-excel'']"

definition allowedExtensions :: "string list" where
  "allowedExtensions = [''.csv'', ''.xes'', ''.xlsx'']"

definition fileExt :: "pfile \<Rightarrow> string" where
  "fileExt f = toLowerCase (extname (or_else (originalFilename f) []))"

text \<open>The condition of the \<open>if\<close> at line 94: the file is refused.\<close>

definition invalid_file_type :: "pfile \<Rightarrow> bool" where
  "invalid_file_type f =
     (\<not> truthy_str (mimetype f) \<or>
      (the (mimetype f) \<notin> set allowedMimeTypes \<and> fileExt f \<notin> set allowedExtensions))"

definition invalid_type_message :: "pfile \<Rightarrow> string" where
  "invalid_type_message f =
     ''Invalid file type. Please upload a .csv, .xes, or .xlsx file. Received: ''
       @ or_else (mimetype f) (fileExt f)"

subsection \<open>Relaying to the backend (lines 114 to 157)\<close>

text \<open>\<open>backendResponse.ok\<close>\<close>

definition ok :: "nat \<Rightarrow> bool" where
  "ok status = (200 \<le> status \<and> status \<le> 299)"

definition default_error_message :: string where
  "default_error_message = ''Error processing file with backend.''"

text \<open>
  The object literal of lines 136 to 140, as \<open>JSON.stringify\<close> sends it: a property whose
  value is \<open>undefined\<close> is left out. Reading a property of \<open>null\<close> throws.
\<close>

definition error_envelope :: "json \<Rightarrow> string + json" where
  "error_envelope d =
     (case get_prop d ''success'' of
        Inl e \<Rightarrow> Inl e
      | Inr s \<Rightarrow>
          (case get_prop d ''message'' of
             Inl e \<Rightarrow> Inl e
           | Inr m \<Rightarrow>
               (case get_prop d ''data'' of
                  Inl e \<Rightarrow> Inl e
                | Inr dt \<Rightarrow>
                    Inr (JObj ([(''success'', (case s of None \<Rightarrow> JBool False | Some v \<Rightarrow> v)),
                                (''message'',
                                   (case m of
                                      None \<Rightarrow> JStr default_error_message
                                    | Some v \<Rightarrow> if truthy v then v else JStr default_error_message))]
                               @ (case dt of None \<Rightarrow> [] | Some v \<Rightarrow> [(''data'', v)]))))))"

text \<open>The message of the error \<open>fs.readFileSync\<close> throws on a missing file.\<close>

definition enoent_message :: "string \<Rightarrow> string" where
  "enoent_message p =
     ''ENOENT: no such file or directory, open '' @ [CHR 0x27] @ p @ [CHR 0x27]"

text \<open>What the relay sends: the target URL and the Authorization header.\<close>

definition targetUrl :: "string \<Rightarrow> string" where
  "targetUrl backendApiUrl = backendApiUrl @ ''/process''"

definition bearer :: "string \<Rightarrow> string" where
  "bearer tok = ''Bearer '' @ tok"

text \<open>
  The body of the \<open>try\<close> block. The result is the state together with the message of the
  exception that left the block, if one did. When the property access on a \<open>null\<close> body
  throws, \<open>res.status(backendResponse.status)\<close> has run but nothing has been sent.
\<close>

definition try_relay :: "world \<Rightarrow> string \<Rightarrow> string \<Rightarrow> pfile \<Rightarrow> st \<Rightarrow> st \<times> string option" where
  "try_relay w tok url f s =
     (let s1 = emit (ReadFileSync (filepath f)) s in
      if filepath f \<notin> files s then
        (s1, Some (enoent_message (filepath f)))
      else
        (let s2 = emit (Fetch (targetUrl url) (bearer tok)
                          (or_else (originalFilename f) ''uploaded_file.csv'')
                          (or_else (mimetype f) ''application/octet-stream'')) s1
         in case fetch_result w of
              FetchThrows m \<Rightarrow> (s2, Some m)
            | FetchResponse status body \<Rightarrow>
                (case body of
                   BodyInvalid m \<Rightarrow> (s2, Some m)
                 | BodyJson d \<Rightarrow>
                     if \<not> ok status then
                       (case error_envelope d of
                          Inl m \<Rightarrow> (s2, Some m)
                        | Inr env \<Rightarrow> (respond status env s2, None))
                     else (respond 200 d s2, None))))"

text \<open>The body of the 502 reply, carrying \<open>proxyError.message\<close>.\<close>

definition bad_gateway_body :: "string \<Rightarrow> json" where
  "bad_gateway_body cause =
     message_body (''Bad Gateway: Could not connect to backend service. '' @ cause)"

text \<open>The \<open>try\<close> with its \<open>catch\<close>: an exception becomes the 502 reply.\<close>

definition relay :: "world \<Rightarrow> string \<Rightarrow> string \<Rightarrow> pfile \<Rightarrow> st \<Rightarrow> st" where
  "relay w tok url f s =
     (case try_relay w tok url f s of
        (s', None) \<Rightarrow> s'
      | (s', Some m) \<Rightarrow>
          respond 502 (bad_gateway_body m) (emit ConsoleError s'))"

text \<open>
  The \<open>finally\<close> block. It runs after the \<open>return\<close> expression of the \<open>try\<close> or of the
  \<open>catch\<close> has been evaluated, that is, after \<open>res.status(...).json(...)\<close> was called.
\<close>

definition finally_cleanup :: "world \<Rightarrow> pfile \<Rightarrow> st \<Rightarrow> st" where
  "finally_cleanup w f s =
     (if filepath f \<noteq> [] then unlink_logged w (filepath f) s else s)"

subsection \<open>The handler\<close>

definition no_file_message :: string where
  "no_file_message =
     ''No file uploaded or multiple files received. Please upload a single event log file.''"

text \<open>The callback of \<open>form.parse\<close> once parsing succeeded (lines 81 to 157).\<close>

definition on_parsed :: "world \<Rightarrow> string \<Rightarrow> (string \<times> upload) list \<Rightarrow> st \<Rightarrow> st" where
  "on_parsed w tok fl s =
     (case map_of fl ''eventLogFile'' of
        None \<Rightarrow> respond 400 (message_body no_file_message) s
      | Some (Multiple fs) \<Rightarrow> respond 400 (message_body no_file_message) s
      | Some (Single f) \<Rightarrow>
          if filepath f = [] then respond 400 (message_body no_file_message) s
          else if invalid_file_type f then
            respond 400 (message_body (invalid_type_message f)) (unlink_logged w (filepath f) s)
          else if \<not> truthy_str (backend_url w) then
            respond 500 (message_body ''Server configuration error: Backend API URL missing.'')
              (unlink_ignored w (filepath f) (emit ConsoleError s))
          else finally_cleanup w f (relay w tok (the (backend_url w)) f s))"

text \<open>The files formidable has written to the upload directory when parsing succeeds.\<close>

fun upload_files :: "upload \<Rightarrow> pfile list" where
  "upload_files (Single f) = [f]"
| "upload_files (Multiple fs) = fs"

definition staged_paths :: "(string \<times> upload) list \<Rightarrow> string set" where
  "staged_paths fl =
     set (filter (\<lambda>p. p \<noteq> []) (map filepath (concat (map (\<lambda>(k, u). upload_files u) fl))))"

text \<open>
  \<open>form.parse(req, callback)\<close> (lines 73 to 158). When parsing succeeds, every file of the
  body, whatever its field, has been written to the upload directory at its \<open>filepath\<close>. A
  failed parse is taken to leave no file behind (formidable removes the files it had opened).
\<close>

definition parse_form :: "world \<Rightarrow> string \<Rightarrow> string \<Rightarrow> st \<Rightarrow> st" where
  "parse_form w tok dir s =
     (let s1 = emit (FormParse dir) s in
      case parse_result w of
        ParseError m \<Rightarrow>
          respond 500 (message_body (''File upload failed: '' @ m)) (emit ConsoleError s1)
      | Parsed fl \<Rightarrow> on_parsed w tok fl (s1\<lparr>files := files s1 \<union> staged_paths fl\<rparr>))"

text \<open>\<open>path.join(process.cwd(), '/tmp/uploads')\<close>, for the absolute path \<open>process.cwd()\<close>.\<close>

definition tempUploadDir :: "world \<Rightarrow> string" where
  "tempUploadDir w = (if cwd w = ''/'' then ''/tmp/uploads'' else cwd w @ ''/tmp/uploads'')"

text \<open>Lines 57 to 73: the upload directory, then the form.\<close>

definition prepare_upload :: "world \<Rightarrow> string \<Rightarrow> st \<Rightarrow> st" where
  "prepare_upload w tok s =
     (let dir = tempUploadDir w; s1 = emit (ExistsSync dir) s in
      if dir \<notin> files s then
        (let s2 = emit (MkdirSync dir) s1 in
         if mkdir_fails w then
           respond 500 (message_body ''Server configuration error for file uploads.'')
             (emit ConsoleError s2)
         else parse_form w tok dir (s2\<lparr>files := insert dir (files s2)\<rparr>))
      else parse_form w tok dir s1)"

definition handler :: "world \<Rightarrow> st" where
  "handler w =
     (let s0 = \<lparr>trace = [], files = fs0 w\<rparr> in
      if req_method w \<noteq> ''POST'' then
        respond 405 (message_body ''Method Not Allowed'') (emit (SetHeader ''Allow'' [''POST'']) s0)
      else
        (let s1 = emit GetAuth s0 in
         if \<not> truthy_str (userId w) then
           respond 401 (message_body ''Unauthorized: No user ID found.'') s1
         else
           (let s2 = emit GetToken s1 in
            if \<not> truthy_str (token w) then
              respond 401 (message_body ''Unauthorized: No token available.'') s2
            else prepare_upload w (the (token w)) s2)))"

subsection \<open>Reading a trace\<close>

fun is_Respond :: "event \<Rightarrow> bool" where
  "is_Respond (Respond code body) = True"
| "is_Respond e = False"

fun is_Fetch :: "event \<Rightarrow> bool" where
  "is_Fetch (Fetch url auth name type) = True"
| "is_Fetch e = False"

text \<open>The responses sent, in order.\<close>

definition responses :: "event list \<Rightarrow> event list" where
  "responses t = filter is_Respond t"

text \<open>The status codes of the responses sent, in order.\<close>

fun status_of :: "event \<Rightarrow> nat option" where
  "status_of (Respond code body) = Some code"
| "status_of e = None"

definition statuses :: "event list \<Rightarrow> nat list" where
  "statuses t = List.map_filter status_of t"

text \<open>The backend was called.\<close>

definition backend_called :: "event list \<Rightarrow> bool" where
  "backend_called t = list_ex is_Fetch t"

text \<open>
  Work on the upload: a look at the upload directory, its creation, multipart parsing (which
  stages the files), a read or a removal of a staged file, the call of the backend.
\<close>

fun upload_work :: "event \<Rightarrow> bool" where
  "upload_work (ExistsSync p) = True"
| "upload_work (MkdirSync p) = True"
| "upload_work (FormParse p) = True"
| "upload_work (UnlinkSync p) = True"
| "upload_work (ReadFileSync p) = True"
| "upload_work (Fetch url auth name type) = True"
| "upload_work e = False"

text \<open>\<open>p\<close> is unlinked before the first response is sent, respectively from then on.\<close>

definition unlinked_before_response :: "string \<Rightarrow> event list \<Rightarrow> bool" where
  "unlinked_before_response p t = (UnlinkSync p \<in> set (takeWhile (\<lambda>e. \<not> is_Respond e) t))"

definition unlinked_after_response :: "string \<Rightarrow> event list \<Rightarrow> bool" where
  "unlinked_after_response p t = (UnlinkSync p \<in> set (dropWhile (\<lambda>e. \<not> is_Respond e) t))"

text \<open>Nothing was sent, removed or relayed yet.\<close>

definition quiet :: "event list \<Rightarrow> bool" where
  "quiet t = (\<forall>e \<in> set t. \<not> is_Respond e \<and> \<not> is_Fetch e \<and> (\<forall>p. e \<noteq> UnlinkSync p))"

subsection \<open>Which requests get how far\<close>

text \<open>The request is a POST of an authenticated caller and the upload directory is there.\<close>

definition reaches_parsing :: "world \<Rightarrow> bool" where
  "reaches_parsing w =
     (req_method w = ''POST'' \<and> truthy_str (userId w) \<and> truthy_str (token w) \<and>
      (tempUploadDir w \<in> fs0 w \<or> \<not> mkdir_fails w))"

text \<open>Parsing succeeds with the single file \<open>f\<close> in the field \<open>eventLogFile\<close>.\<close>

definition single_upload :: "world \<Rightarrow> pfile \<Rightarrow> bool" where
  "single_upload w f =
     (case parse_result w of
        ParseError m \<Rightarrow> False
      | Parsed fl \<Rightarrow> map_of fl ''eventLogFile'' = Some (Single f) \<and> filepath f \<noteq> [])"

text \<open>The file \<open>f\<close> passes validation and the backend URL is configured.\<close>

definition reaches_relay :: "world \<Rightarrow> pfile \<Rightarrow> bool" where
  "reaches_relay w f =
     (reaches_parsing w \<and> single_upload w f \<and> \<not> invalid_file_type f \<and>
      truthy_str (backend_url w))"

text \<open>
  A failure of the relay at the level of the connection, with its cause: \<open>fetch\<close> rejects,
  or the body of the response is not JSON.
\<close>

fun transport_cause :: "fetch_outcome \<Rightarrow> string option" where
  "transport_cause (FetchThrows m) = Some m"
| "transport_cause (FetchResponse status (BodyInvalid m)) = Some m"
| "transport_cause (FetchResponse status (BodyJson d)) = None"

subsection \<open>Example requests\<close>

definition csv_file :: pfile where
  "csv_file =
     \<lparr>filepath = ''/app/tmp/uploads/3f9a.csv'', originalFilename = Some ''orders.csv'',
      mimetype = Some ''text/csv''\<rparr>"

definition full_reply :: json where
  "full_reply =
     JObj [(''success'', JBool True), (''message'', JStr ''done''),
           (''data'', JObj [(''processGraph'', JObj [(''nodes'', JArr []), (''links'', JArr [])]),
                            (''llmInsights'', JObj [(''summary'', JStr ''fine'')])])]"

text \<open>A well-formed upload, answered by the backend with 200 and full data.\<close>

definition good_request :: world where
  "good_request =
     \<lparr>req_method = ''POST'', userId = Some ''user_1'', token = Some ''jwt'', cwd = ''/app'',
      fs0 = {}, mkdir_fails = False,
      parse_result = Parsed [(''eventLogFile'', Single csv_file)],
      backend_url = Some ''http://backend:5000/api'', unlink_denied = {},
      fetch_result = FetchResponse 200 (BodyJson full_reply)\<rparr>"


definition xes_file :: pfile where
  "xes_file =
     \<lparr>filepath = ''/app/tmp/uploads/77c2.xes'', originalFilename = Some ''claims.xes'',
      mimetype = Some ''application/xml''\<rparr>"

text \<open>Two files arrive in the field \<open>eventLogFile\<close>.\<close>

definition two_files_request :: world where
  "two_files_request =
     good_request\<lparr>parse_result := Parsed [(''eventLogFile'', Multiple [csv_file, xes_file])]\<rparr>"

text \<open>The caller has no session.\<close>

definition anonymous_request :: world where
  "anonymous_request = good_request\<lparr>userId := None, token := None\<rparr>"

definition get_request :: world where
  "get_request = good_request\<lparr>req_method := ''GET''\<rparr>"


text \<open>A CSV file whose part declares no content type.\<close>

definition untyped_csv_file :: pfile where
  "untyped_csv_file = csv_file\<lparr>mimetype := None\<rparr>"

definition untyped_request :: world where
  "untyped_request =
     good_request\<lparr>parse_result := Parsed [(''eventLogFile'', Single untyped_csv_file)]\<rparr>"

definition pdf_file :: pfile where
  "pdf_file =
     \<lparr>filepath = ''/app/tmp/uploads/9d10.pdf'', originalFilename = Some ''Report.PDF'',
      mimetype = Some ''application/pdf''\<rparr>"

definition pdf_request :: world where
  "pdf_request = good_request\<lparr>parse_result := Parsed [(''eventLogFile'', Single pdf_file)]\<rparr>"

text \<open>The multipart body cannot be parsed.\<close>

definition malformed_request :: world where
  "malformed_request =
     good_request\<lparr>parse_result := ParseError ''options.maxFileSize exceeded''\<rparr>"

text \<open>The backend answers 200 without \<open>data\<close>.\<close>

definition sparse_reply :: json where
  "sparse_reply = JObj [(''success'', JBool True), (''message'', JStr ''done'')]"

definition sparse_request :: world where
  "sparse_request = good_request\<lparr>fetch_result := FetchResponse 200 (BodyJson sparse_reply)\<rparr>"

text \<open>The backend refuses the connection.\<close>

definition refused_request :: world where
  "refused_request = good_request\<lparr>fetch_result := FetchThrows ''fetch failed''\<rparr>"

text \<open>The backend answers 500 with an empty message.\<close>

definition empty_message_reply :: json where
  "empty_message_reply = JObj [(''success'', JBool False), (''message'', JStr [])]"

definition empty_message_request :: world where
  "empty_message_request =
     good_request\<lparr>fetch_result := FetchResponse 500 (BodyJson empty_message_reply)\<rparr>"

text \<open>The backend answers 500 with a process graph but no insights.\<close>

definition partial_data :: json where
  "partial_data =
     JObj [(''processGraph'', JObj [(''nodes'', JArr []), (''links'', JArr [])]),
           (''llmInsights'', JNull)]"

definition partial_reply :: "(string \<times> json) list" where
  "partial_reply =
     [(''success'', JBool False), (''message'', JStr ''LLM timeout''), (''data'', partial_data)]"

definition partial_request :: world where
  "partial_request =
     good_request\<lparr>fetch_result := FetchResponse 500 (BodyJson (JObj partial_reply))\<rparr>"

text \<open>The backend answers 503 with an empty object.\<close>

definition bare_request :: world where
  "bare_request = good_request\<lparr>fetch_result := FetchResponse 503 (BodyJson (JObj []))\<rparr>"

text \<open>The backend answers 500 with the body \<open>null\<close>.\<close>

definition null_request :: world where
  "null_request = good_request\<lparr>fetch_result := FetchResponse 500 (BodyJson JNull)\<rparr>"

text \<open>The backend answers 500 with a message and no \<open>success\<close>.\<close>

definition message_only_reply :: json where
  "message_only_reply = JObj [(''message'', JStr ''LLM timeout'')]"

definition message_only_request :: world where
  "message_only_request =
     good_request\<lparr>fetch_result := FetchResponse 500 (BodyJson message_only_reply)\<rparr>"

text \<open>What the example requests do before the callback of \<open>form.parse\<close> runs.\<close>

definition upload_prefix :: "event list" where
  "upload_prefix =
     [GetAuth, GetToken, ExistsSync ''/app/tmp/uploads'', MkdirSync ''/app/tmp/uploads'',
      FormParse ''/app/tmp/uploads'']"

text \<open>And up to the call of the backend, for the file \<open>csv_file\<close>.\<close>

definition relay_prefix :: "event list" where
  "relay_prefix =
     upload_prefix @
     [ReadFileSync (filepath csv_file),
      Fetch (targetUrl ''http://backend:5000/api'') (bearer ''jwt'') ''orders.csv'' ''text/csv'']"


section \<open>Properties\<close>

subsection \<open>Reading traces and states\<close>

lemma responses_simps [simp]:
  "responses [] = []"
  "responses (e # t) = (if is_Respond e then e # responses t else responses t)"
  by (simp_all add: responses_def)

lemma before_simps [simp]:
  "unlinked_before_response p [] = False"
  "unlinked_before_response p (e # t) =
     (\<not> is_Respond e \<and> (e = UnlinkSync p \<or> unlinked_before_response p t))"
  by (auto simp: unlinked_before_response_def)

lemma after_simps [simp]:
  "unlinked_after_response p [] = False"
  "unlinked_after_response p (e # t) =
     (if is_Respond e then UnlinkSync p \<in> set t else unlinked_after_response p t)"
  by (auto simp: unlinked_after_response_def)

lemma called_simps [simp]:
  "backend_called [] = False"
  "backend_called (e # t) = (is_Fetch e \<or> backend_called t)"
  by (simp_all add: backend_called_def)

lemma statuses_simps [simp]:
  "statuses [] = []"
  "statuses (e # t) = (case status_of e of None \<Rightarrow> statuses t | Some c \<Rightarrow> c # statuses t)"
  by (simp_all add: statuses_def List.map_filter_simps split: option.splits)

lemma quiet_responses [simp]: "quiet t \<Longrightarrow> responses (t @ u) = responses u"
  by (auto simp: quiet_def responses_def filter_empty_conv)

lemma quiet_count [simp]: "quiet t \<Longrightarrow> count_list t (UnlinkSync p) = 0"
  by (auto simp: quiet_def count_list_0_iff)

lemma quiet_before [simp]:
  "quiet t \<Longrightarrow> unlinked_before_response p (t @ u) = unlinked_before_response p u"
  by (auto simp: quiet_def unlinked_before_response_def)

lemma quiet_after [simp]:
  "quiet t \<Longrightarrow> unlinked_after_response p (t @ u) = unlinked_after_response p u"
  by (auto simp: quiet_def unlinked_after_response_def)

lemma quiet_called [simp]: "quiet t \<Longrightarrow> backend_called (t @ u) = backend_called u"
  by (auto simp: quiet_def backend_called_def list_ex_iff)

lemma emit_simps [simp]:
  "trace (emit e s) = trace s @ [e]"
  "files (emit e s) = files s"
  by (simp_all add: emit_def)

lemma respond_simps [simp]:
  "trace (respond c b s) = trace s @ [Respond c b]"
  "files (respond c b s) = files s"
  by (simp_all add: respond_def)

lemma unlink_logged_trace [simp]:
  "trace (unlink_logged w p s) =
     trace s @ UnlinkSync p #
       (if p \<in> files s \<and> p \<notin> unlink_denied w then [] else [ConsoleError])"
  by (simp add: unlink_logged_def unlinkSync_def Let_def)

lemma unlink_logged_files [simp]:
  "files (unlink_logged w p s) = (if p \<in> unlink_denied w then files s else files s - {p})"
  by (auto simp: unlink_logged_def unlinkSync_def Let_def)

lemma unlink_ignored_trace [simp]:
  "trace (unlink_ignored w p s) = trace s @ [UnlinkSync p]"
  by (simp add: unlink_ignored_def unlinkSync_def Let_def)

lemma unlink_ignored_files [simp]:
  "files (unlink_ignored w p s) = (if p \<in> unlink_denied w then files s else files s - {p})"
  by (auto simp: unlink_ignored_def unlinkSync_def Let_def)

lemma relay_files [simp]: "files (relay w tok url f s) = files s"
  by (simp add: relay_def try_relay_def Let_def
        split: fetch_outcome.splits body_outcome.splits sum.splits)

subsection \<open>From the request to the callback\<close>

lemma staged_member:
  "map_of fl k = Some (Single f) \<Longrightarrow> filepath f \<noteq> [] \<Longrightarrow> filepath f \<in> staged_paths fl"
  by (force simp: staged_paths_def dest: map_of_SomeD)

lemma handler_parsing:
  "reaches_parsing w \<Longrightarrow> parse_result w = Parsed fl \<Longrightarrow>
     \<exists>s. handler w = on_parsed w (the (token w)) fl s \<and> staged_paths fl \<subseteq> files s \<and>
         quiet (trace s)"
  unfolding reaches_parsing_def handler_def prepare_upload_def parse_form_def Let_def quiet_def
  by (cases "tempUploadDir w \<in> fs0 w"; simp; intro exI conjI; (rule refl)?; auto)

lemma handler_single:
  assumes "reaches_parsing w" "single_upload w f"
  shows "\<exists>s fl. handler w = on_parsed w (the (token w)) fl s \<and>
           map_of fl ''eventLogFile'' = Some (Single f) \<and> filepath f \<noteq> [] \<and>
           filepath f \<in> files s \<and> quiet (trace s)"
proof -
  from assms(2) obtain fl where fl: "parse_result w = Parsed fl"
    "map_of fl ''eventLogFile'' = Some (Single f)" "filepath f \<noteq> []"
    by (auto simp: single_upload_def split: parse_outcome.splits)
  from handler_parsing[OF assms(1) fl(1)] obtain s where
    s: "handler w = on_parsed w (the (token w)) fl s" "staged_paths fl \<subseteq> files s"
       "quiet (trace s)"
    by blast
  from staged_member[OF fl(2,3)] s(2) have "filepath f \<in> files s" by blast
  with fl s show ?thesis by blast
qed

lemma relay_start:
  assumes "reaches_relay w f"
  shows "\<exists>s tok url. handler w = finally_cleanup w f (relay w tok url f s) \<and>
           filepath f \<noteq> [] \<and> filepath f \<in> files s \<and> quiet (trace s)"
proof -
  from assms have p: "reaches_parsing w" "single_upload w f" and
     v: "\<not> invalid_file_type f" "truthy_str (backend_url w)"
    by (simp_all add: reaches_relay_def)
  from handler_single[OF p] obtain s fl where
    h: "handler w = on_parsed w (the (token w)) fl s" and
    f: "map_of fl ''eventLogFile'' = Some (Single f)" "filepath f \<noteq> []"
       "filepath f \<in> files s" and
    q: "quiet (trace s)"
    by blast
  from h f v have
    "handler w = finally_cleanup w f (relay w (the (token w)) (the (backend_url w)) f s)"
    by (simp add: on_parsed_def)
  with f q show ?thesis by blast
qed

subsection \<open>The relay and its responses\<close>

lemma relay_calls_backend:
  "filepath f \<in> files s \<Longrightarrow>
     backend_called (trace (finally_cleanup w f (relay w tok url f s)))"
  by (simp add: finally_cleanup_def relay_def try_relay_def Let_def backend_called_def
        split: fetch_outcome.splits body_outcome.splits sum.splits)

lemma relay_response:
  assumes "filepath f \<in> files s" "filepath f \<noteq> []" "quiet (trace s)"
  shows "\<exists>c b. responses (trace (finally_cleanup w f (relay w tok url f s))) = [Respond c b] \<and>
           (c = 200 \<or> c = 502 \<or> (\<exists>d. error_envelope d = Inr b))"
  using assms
  by (auto simp: finally_cleanup_def relay_def try_relay_def Let_def
        split: fetch_outcome.splits body_outcome.splits sum.splits)

lemma envelope_not_message: "error_envelope d = Inr b \<Longrightarrow> b \<noteq> message_body m"
  by (auto simp: error_envelope_def message_body_def split: sum.splits)

lemma envelope_total:
  "d \<noteq> JNull \<Longrightarrow>
   \<exists>s m. error_envelope d =
      Inr (JObj ([(''success'', s), (''message'', m)] @
            (case get_prop d ''data'' of Inr (Some v) \<Rightarrow> [(''data'', v)] | _ \<Rightarrow> []))) \<and>
      (get_prop d ''success'' = Inr None \<longrightarrow> s = JBool False) \<and>
      (get_prop d ''message'' = Inr None \<longrightarrow> m = JStr default_error_message)"
  by (cases d) (auto simp: error_envelope_def split: option.splits)

lemma envelope_fields:
  assumes "d \<noteq> JNull"
  shows "\<exists>env. error_envelope d = Inr env \<and>
      get_prop env ''success'' =
        Inr (Some (case get_prop d ''success'' of Inr (Some v) \<Rightarrow> v | _ \<Rightarrow> JBool False)) \<and>
      get_prop env ''message'' =
        Inr (Some (case get_prop d ''message'' of
                     Inr (Some v) \<Rightarrow> if truthy v then v else JStr default_error_message
                   | _ \<Rightarrow> JStr default_error_message)) \<and>
      get_prop env ''data'' = get_prop d ''data''"
  using assms by (cases d) (auto simp: error_envelope_def split: option.splits)

lemma null_envelope: "error_envelope JNull = Inl (null_read_error ''success'')"
  by (simp add: error_envelope_def)

lemma relay_null_body:
  assumes "reaches_relay w f"
    and "fetch_result w = FetchResponse status (BodyJson JNull)"
    and "\<not> ok status"
  shows "responses (trace (handler w)) =
     [Respond 502 (bad_gateway_body (null_read_error ''success''))]"
proof -
  from relay_start[OF assms(1)] obtain s tok url where
    h: "handler w = finally_cleanup w f (relay w tok url f s)" and
    f: "filepath f \<noteq> []" "filepath f \<in> files s" and q: "quiet (trace s)"
    by blast
  from f q assms(2,3) show ?thesis
    unfolding h
    by (simp add: finally_cleanup_def relay_def try_relay_def null_envelope Let_def)
qed

lemma relay_failed_body:
  assumes "reaches_relay w f"
    and "fetch_result w = FetchResponse status (BodyJson d)"
    and "\<not> ok status"
    and "error_envelope d = Inr env"
  shows "responses (trace (handler w)) = [Respond status env]"
proof -
  from relay_start[OF assms(1)] obtain s tok url where
    h: "handler w = finally_cleanup w f (relay w tok url f s)" and
    f: "filepath f \<noteq> []" "filepath f \<in> files s" and q: "quiet (trace s)"
    by blast
  from f q assms(2-) show ?thesis
    unfolding h by (simp add: finally_cleanup_def relay_def try_relay_def Let_def)
qed

lemma message_onlyI:
  "responses t = [Respond code (message_body m)] \<Longrightarrow> m \<noteq> [] \<Longrightarrow>
   code \<in> {400, 401, 405, 500, 502} \<Longrightarrow>
   \<exists>code m. responses t = [Respond code (message_body m)] \<and> m \<noteq> [] \<and>
      code \<in> {400, 401, 405, 500, 502} \<and> get_prop (message_body m) ''success'' = Inr None"
  by (auto simp: message_body_def)

lemma invalid_file_type_iff:
  "invalid_file_type f \<longleftrightarrow>
     \<not> (truthy_str (mimetype f) \<and>
        (the (mimetype f) \<in> set allowedMimeTypes \<or> fileExt f \<in> set allowedExtensions))"
  by (auto simp: invalid_file_type_def)

lemma invalid_type_message_eq:
  "invalid_type_message f =
     ''Invalid file type. Please upload a .csv, .xes, or .xlsx file. Received: '' @
       (if truthy_str (mimetype f) then the (mimetype f) else fileExt f)"
  by (cases "mimetype f") (simp_all add: invalid_type_message_def)

text \<open>
  The extensions the policy names, on files whose declared type is not in the MIME list:
  the three listed extensions pass in any letter case, other names do not.
\<close>

lemma extension_examples:
  "\<not> invalid_file_type \<lparr>filepath = p, originalFilename = Some ''log.csv'',
       mimetype = Some ''application/octet-stream''\<rparr>"
  "\<not> invalid_file_type \<lparr>filepath = p, originalFilename = Some ''LOG.XES'',
       mimetype = Some ''application/octet-stream''\<rparr>"
  "\<not> invalid_file_type \<lparr>filepath = p, originalFilename = Some ''book.v2.xlsx'',
       mimetype = Some ''application/octet-stream''\<rparr>"
  "invalid_file_type \<lparr>filepath = p, originalFilename = Some ''setup.exe'',
       mimetype = Some ''application/octet-stream''\<rparr>"
  "invalid_file_type \<lparr>filepath = p, originalFilename = Some ''notes.txt'',
       mimetype = Some ''application/octet-stream''\<rparr>"
  "invalid_file_type \<lparr>filepath = p, originalFilename = Some ''README'',
       mimetype = Some ''application/octet-stream''\<rparr>"
  "invalid_file_type \<lparr>filepath = p, originalFilename = Some ''.csv'',
       mimetype = Some ''application/octet-stream''\<rparr>"
  "invalid_file_type \<lparr>filepath = p, originalFilename = None,
       mimetype = Some ''application/octet-stream''\<rparr>"
  by code_simp+

subsection \<open>The example requests\<close>

lemma csv_file_valid: "\<not> invalid_file_type csv_file"
  by (simp add: invalid_file_type_def csv_file_def allowedMimeTypes_def)

lemma good_request_parsing: "reaches_parsing good_request"
  by (simp add: reaches_parsing_def good_request_def)

lemma good_request_single: "single_upload good_request csv_file"
  by (simp add: single_upload_def good_request_def csv_file_def)

lemma good_request_relay: "reaches_relay good_request csv_file"
  by (simp add: reaches_relay_def good_request_parsing good_request_single csv_file_valid)
     (simp add: good_request_def)

lemma good_request_fields:
  "req_method good_request = ''POST''"
  "userId good_request = Some ''user_1''"
  "token good_request = Some ''jwt''"
  "cwd good_request = ''/app''"
  "fs0 good_request = {}"
  "mkdir_fails good_request = False"
  "parse_result good_request = Parsed [(''eventLogFile'', Single csv_file)]"
  "backend_url good_request = Some ''http://backend:5000/api''"
  "unlink_denied good_request = {}"
  by (simp_all add: good_request_def)

lemma csv_file_fields:
  "filepath csv_file = ''/app/tmp/uploads/3f9a.csv''"
  "originalFilename csv_file = Some ''orders.csv''"
  "mimetype csv_file = Some ''text/csv''"
  by (simp_all add: csv_file_def)

lemma example_relay_state:
  "handler (good_request\<lparr>fetch_result := r\<rparr>) =
     finally_cleanup (good_request\<lparr>fetch_result := r\<rparr>) csv_file
       (relay (good_request\<lparr>fetch_result := r\<rparr>) ''jwt'' ''http://backend:5000/api'' csv_file
          \<lparr>trace = upload_prefix, files = {''/app/tmp/uploads'', filepath csv_file}\<rparr>)"
  by (simp add: handler_def prepare_upload_def parse_form_def on_parsed_def good_request_fields
        csv_file_valid tempUploadDir_def staged_paths_def upload_prefix_def emit_def Let_def)
     (simp add: csv_file_fields insert_commute)

lemma example_relay_reaches: "reaches_relay (good_request\<lparr>fetch_result := r\<rparr>) csv_file"
  by (simp add: reaches_relay_def reaches_parsing_def single_upload_def tempUploadDir_def
        good_request_fields csv_file_valid)
     (simp add: csv_file_fields)

lemma example_unlink:
  "finally_cleanup (good_request\<lparr>fetch_result := r\<rparr>) csv_file
     \<lparr>trace = t, files = {''/app/tmp/uploads'', filepath csv_file}\<rparr> =
   \<lparr>trace = t @ [UnlinkSync (filepath csv_file)], files = {''/app/tmp/uploads''}\<rparr>"
  by (simp add: finally_cleanup_def unlink_logged_def unlinkSync_def emit_def
        good_request_fields Let_def)
     (auto simp: csv_file_fields)

lemma example_relay_run:
  "handler (good_request\<lparr>fetch_result := FetchResponse status (BodyJson d)\<rparr>) =
     \<lparr>trace = relay_prefix @
        [(if ok status then Respond 200 d
          else case error_envelope d of
                 Inr env \<Rightarrow> Respond status env
               | Inl m \<Rightarrow> ConsoleError),
         UnlinkSync (filepath csv_file)],
      files = {''/app/tmp/uploads''}\<rparr>"
  if "ok status \<or> d \<noteq> JNull"
proof -
  have e: "\<exists>env. error_envelope d = Inr env" if "d \<noteq> JNull"
    using that by (cases d) (simp_all add: error_envelope_def)
  show ?thesis
  proof (cases "ok status")
    case True
    then show ?thesis
      by (simp add: example_relay_state relay_def try_relay_def respond_def emit_def Let_def
            relay_prefix_def example_unlink good_request_fields)
         (simp add: csv_file_fields)
  next
    case False
    with \<open>ok status \<or> d \<noteq> JNull\<close> e obtain env where "error_envelope d = Inr env"
      by blast
    with False show ?thesis
      by (simp add: example_relay_state relay_def try_relay_def respond_def emit_def Let_def
            relay_prefix_def example_unlink good_request_fields)
         (simp add: csv_file_fields)
  qed
qed

lemma good_request_run:
  "handler good_request =
     \<lparr>trace = relay_prefix @ [Respond 200 full_reply, UnlinkSync (filepath csv_file)],
      files = {''/app/tmp/uploads''}\<rparr>"
proof -
  have "good_request = good_request\<lparr>fetch_result := FetchResponse 200 (BodyJson full_reply)\<rparr>"
    by (simp add: good_request_def)
  then show ?thesis
    using example_relay_run[of 200 full_reply] by (simp add: ok_def)
qed

lemma sparse_request_run:
  "handler sparse_request =
     \<lparr>trace = relay_prefix @ [Respond 200 sparse_reply, UnlinkSync (filepath csv_file)],
      files = {''/app/tmp/uploads''}\<rparr>"
  using example_relay_run[of 200 sparse_reply] by (simp add: sparse_request_def ok_def)

lemma empty_message_request_run:
  "handler empty_message_request =
     \<lparr>trace = relay_prefix @
        [Respond 500 (JObj [(''success'', JBool False),
                            (''message'', JStr default_error_message)]),
         UnlinkSync (filepath csv_file)],
      files = {''/app/tmp/uploads''}\<rparr>"
  using example_relay_run[of 500 empty_message_reply]
  by (simp add: empty_message_request_def ok_def empty_message_reply_def error_envelope_def)

lemma refused_request_run:
  "handler refused_request =
     \<lparr>trace = relay_prefix @
        [ConsoleError, Respond 502 (bad_gateway_body ''fetch failed''),
         UnlinkSync (filepath csv_file)],
      files = {''/app/tmp/uploads''}\<rparr>"
  by (simp add: refused_request_def example_relay_state relay_def try_relay_def respond_def
        emit_def Let_def relay_prefix_def example_unlink good_request_fields)
     (simp add: csv_file_fields)

lemma null_request_run:
  "handler null_request =
     \<lparr>trace = relay_prefix @
        [ConsoleError, Respond 502 (bad_gateway_body (null_read_error ''success'')),
         UnlinkSync (filepath csv_file)],
      files = {''/app/tmp/uploads''}\<rparr>"
  by (simp add: null_request_def example_relay_state relay_def try_relay_def respond_def
        emit_def Let_def relay_prefix_def example_unlink good_request_fields ok_def
        null_envelope)
     (simp add: csv_file_fields)

lemma two_files_request_run:
  "handler two_files_request =
     \<lparr>trace = upload_prefix @ [Respond 400 (message_body no_file_message)],
      files = {''/app/tmp/uploads'', filepath csv_file, filepath xes_file}\<rparr>"
  by (simp add: handler_def prepare_upload_def parse_form_def on_parsed_def two_files_request_def
        good_request_def tempUploadDir_def staged_paths_def upload_prefix_def Let_def)
     (auto simp: csv_file_def xes_file_def)

lemma untyped_csv_file_ext: "fileExt untyped_csv_file = ''.csv''"
  by code_simp

lemma untyped_csv_file_invalid: "invalid_file_type untyped_csv_file"
  by (simp add: invalid_file_type_def untyped_csv_file_def)

lemma untyped_request_run:
  "handler untyped_request =
     \<lparr>trace = upload_prefix @
        [UnlinkSync (filepath csv_file),
         Respond 400 (message_body (invalid_type_message untyped_csv_file))],
      files = {''/app/tmp/uploads''}\<rparr>"
  using untyped_csv_file_invalid
  by (simp add: handler_def prepare_upload_def parse_form_def on_parsed_def untyped_request_def
        good_request_def tempUploadDir_def staged_paths_def upload_prefix_def Let_def)
     (auto simp: untyped_csv_file_def csv_file_def)

lemma pdf_file_invalid: "invalid_file_type pdf_file"
  by code_simp

lemma pdf_request_reaches: "reaches_parsing pdf_request \<and> single_upload pdf_request pdf_file"
  by (simp add: reaches_parsing_def single_upload_def pdf_request_def good_request_def
        pdf_file_def)

lemma malformed_request_run:
  "handler malformed_request =
     \<lparr>trace = upload_prefix @
        [ConsoleError,
         Respond 500 (message_body ''File upload failed: options.maxFileSize exceeded'')],
      files = {''/app/tmp/uploads''}\<rparr>"
  by (simp add: handler_def prepare_upload_def parse_form_def malformed_request_def
        good_request_def tempUploadDir_def upload_prefix_def Let_def)

lemma anonymous_request_run:
  "handler anonymous_request =
     \<lparr>trace = [GetAuth, Respond 401 (message_body ''Unauthorized: No user ID found.'')],
      files = {}\<rparr>"
  by (simp add: handler_def anonymous_request_def good_request_def)

lemma quiet_upload_prefix: "quiet upload_prefix"
  by (simp add: quiet_def upload_prefix_def)

lemma statuses_quiet [simp]: "quiet t \<Longrightarrow> statuses (t @ u) = statuses u"
  by (induction t) (auto simp: quiet_def elim: is_Respond.elims split: option.splits)

section \<open>The claims\<close>

text \<open>
  C1 (as amended). A request that reaches parsing with a single file \<open>f\<close> in the field
  \<open>eventLogFile\<close> gets exactly one response, and the staged path of \<open>f\<close> is unlinked
  exactly once on every way out of the callback: validation rejection, missing backend URL,
  success, backend error status, transport failure. On validation rejection and on a missing
  backend URL the unlink comes before the response; on the three ways through the relay it
  comes after the response, in the \<open>finally\<close> block. When the removal is not refused by the
  file system, the staged path does not exist once the handler has finished.
\<close>

theorem staged_file_cleanup:
  assumes "reaches_parsing w" and "single_upload w f"
  shows "length (responses (trace (handler w))) = 1 \<and>
     count_list (trace (handler w)) (UnlinkSync (filepath f)) = 1 \<and>
     (unlinked_before_response (filepath f) (trace (handler w)) \<longleftrightarrow>
        invalid_file_type f \<or> \<not> truthy_str (backend_url w)) \<and>
     (unlinked_after_response (filepath f) (trace (handler w)) \<longleftrightarrow>
        \<not> invalid_file_type f \<and> truthy_str (backend_url w)) \<and>
     (filepath f \<notin> unlink_denied w \<longrightarrow> filepath f \<notin> files (handler w))"
proof -
  from handler_single[OF assms] obtain s fl where
    h: "handler w = on_parsed w (the (token w)) fl s" and
    f: "map_of fl ''eventLogFile'' = Some (Single f)" "filepath f \<noteq> []"
       "filepath f \<in> files s" and
    q: "quiet (trace s)"
    by blast
  consider (invalid) "invalid_file_type f"
    | (config) "\<not> invalid_file_type f" "\<not> truthy_str (backend_url w)"
    | (relay) "\<not> invalid_file_type f" "truthy_str (backend_url w)"
    by blast
  then show ?thesis
  proof cases
    case invalid
    with f q show ?thesis
      unfolding h by (simp add: on_parsed_def)
  next
    case config
    with f q show ?thesis
      unfolding h by (simp add: on_parsed_def)
  next
    case relay
    with f q show ?thesis
      unfolding h
      by (simp add: on_parsed_def finally_cleanup_def relay_def try_relay_def Let_def
            split: fetch_outcome.splits body_outcome.splits sum.splits)
  qed
qed

theorem staged_file_cleanup_witness:
  "reaches_parsing good_request \<and> single_upload good_request csv_file \<and>
   length (responses (trace (handler good_request))) = 1 \<and>
   count_list (trace (handler good_request)) (UnlinkSync (filepath csv_file)) = 1 \<and>
   unlinked_after_response (filepath csv_file) (trace (handler good_request)) \<and>
   filepath csv_file \<notin> files (handler good_request)"
proof -
  have u: "filepath csv_file \<notin> unlink_denied good_request"
    and b: "truthy_str (backend_url good_request)"
    by (simp_all add: good_request_def)
  from staged_file_cleanup[OF good_request_parsing good_request_single] u b csv_file_valid
  show ?thesis
    using good_request_parsing good_request_single by blast
qed

text \<open>
  C1 (as stated) fails. On the success path the response is sent before the staged file is
  unlinked, and when two files arrive in the field the request is refused without any
  unlink, so that both staged files stay.
\<close>

theorem staged_file_cleanup_counterexample:
  "\<not> unlinked_before_response (filepath csv_file) (trace (handler good_request)) \<and>
   statuses (trace (handler two_files_request)) = [400] \<and>
   count_list (trace (handler two_files_request)) (UnlinkSync (filepath csv_file)) = 0 \<and>
   filepath csv_file \<in> files (handler two_files_request)"
  by (simp add: good_request_run two_files_request_run relay_prefix_def upload_prefix_def)

text \<open>
  C2. A request whose caller has no user id, or for whom no token can be obtained, never
  looks at or creates the upload directory, never parses the multipart body, stages,
  reads or removes a file and never calls the backend: the file system is as it was. When
  the request is a POST, the only response is a 401.
\<close>

theorem unauthenticated_never_stages:
  assumes "\<not> truthy_str (userId w) \<or> \<not> truthy_str (token w)"
  shows "files (handler w) = fs0 w \<and>
     (\<forall>e \<in> set (trace (handler w)). \<not> upload_work e) \<and>
     (req_method w = ''POST'' \<longrightarrow>
        responses (trace (handler w)) =
          [Respond 401 (message_body
             (if \<not> truthy_str (userId w) then ''Unauthorized: No user ID found.''
              else ''Unauthorized: No token available.''))])"
  using assms by (auto simp: handler_def Let_def)

theorem unauthenticated_never_stages_witness:
  "\<not> truthy_str (userId anonymous_request) \<and>
   files (handler anonymous_request) = fs0 anonymous_request \<and>
   list_ex upload_work (trace (handler anonymous_request)) = False \<and>
   req_method anonymous_request = ''POST'' \<and>
   responses (trace (handler anonymous_request)) =
     [Respond 401 (message_body ''Unauthorized: No user ID found.'')]"
proof -
  have u: "\<not> truthy_str (userId anonymous_request)"
    and m: "req_method anonymous_request = ''POST''"
    by (simp_all add: anonymous_request_def good_request_def)
  from unauthenticated_never_stages[of anonymous_request] u m show ?thesis
    by (simp add: list_ex_iff)
qed

text \<open>
  C9. A request whose method is not POST gets the header \<open>Allow: POST\<close> and the response
  405 with a message, and nothing else happens: no authentication, no directory, no parsing,
  no staging, no call of the backend.
\<close>

theorem non_post_rejected:
  assumes "req_method w \<noteq> ''POST''"
  shows "handler w =
     \<lparr>trace = [SetHeader ''Allow'' [''POST''],
               Respond 405 (message_body ''Method Not Allowed'')],
      files = fs0 w\<rparr>"
  using assms by (simp add: handler_def respond_def emit_def)

theorem non_post_rejected_witness:
  "req_method get_request \<noteq> ''POST'' \<and>
   handler get_request =
     \<lparr>trace = [SetHeader ''Allow'' [''POST''],
               Respond 405 (message_body ''Method Not Allowed'')],
      files = fs0 get_request\<rparr>"
proof -
  have m: "req_method get_request \<noteq> ''POST''"
    by (simp add: get_request_def)
  from non_post_rejected[OF m] m show ?thesis by simp
qed


text \<open>
  C3 (as amended). For a request that reaches parsing with a single file \<open>f\<close>, the file is
  accepted if and only if a non-empty content type is declared and either that type is in
  the MIME list or the lower-cased extension of the file name is one of \<open>.csv\<close>, \<open>.xes\<close>,
  \<open>.xlsx\<close>. A refused file is removed, the only response is a 400 whose message ends with
  the declared type, or with the extension when no type is declared, and the backend is not
  called.
\<close>

theorem validation_rule:
  assumes "reaches_parsing w" and "single_upload w f"
  shows "(invalid_file_type f \<longleftrightarrow>
            \<not> (truthy_str (mimetype f) \<and>
               (the (mimetype f) \<in> set allowedMimeTypes \<or>
                fileExt f \<in> set allowedExtensions))) \<and>
     (responses (trace (handler w)) = [Respond 400 (message_body (invalid_type_message f))]
        \<longleftrightarrow> invalid_file_type f) \<and>
     (invalid_file_type f \<longrightarrow>
        \<not> backend_called (trace (handler w)) \<and>
        unlinked_before_response (filepath f) (trace (handler w))) \<and>
     invalid_type_message f =
       ''Invalid file type. Please upload a .csv, .xes, or .xlsx file. Received: '' @
         (if truthy_str (mimetype f) then the (mimetype f) else fileExt f)"
proof -
  from handler_single[OF assms] obtain s fl where
    h: "handler w = on_parsed w (the (token w)) fl s" and
    f: "map_of fl ''eventLogFile'' = Some (Single f)" "filepath f \<noteq> []"
       "filepath f \<in> files s" and
    q: "quiet (trace s)"
    by blast
  consider (invalid) "invalid_file_type f"
    | (config) "\<not> invalid_file_type f" "\<not> truthy_str (backend_url w)"
    | (relay) "\<not> invalid_file_type f" "truthy_str (backend_url w)"
    by blast
  then have "(responses (trace (handler w)) =
        [Respond 400 (message_body (invalid_type_message f))] \<longleftrightarrow> invalid_file_type f) \<and>
     (invalid_file_type f \<longrightarrow>
        \<not> backend_called (trace (handler w)) \<and>
        unlinked_before_response (filepath f) (trace (handler w)))"
  proof cases
    case invalid
    with f q show ?thesis
      unfolding h by (simp add: on_parsed_def)
  next
    case config
    with f q show ?thesis
      unfolding h by (simp add: on_parsed_def)
  next
    case relay
    with f have r: "handler w =
        finally_cleanup w f (relay w (the (token w)) (the (backend_url w)) f s)"
      unfolding h by (simp add: on_parsed_def)
    from relay_response[OF f(3,2) q] obtain c b where
      cb: "responses (trace (handler w)) = [Respond c b]"
          "c = 200 \<or> c = 502 \<or> (\<exists>d. error_envelope d = Inr b)"
      unfolding r by blast
    have "b \<noteq> message_body (invalid_type_message f)" if "c = 400"
      using cb(2) that envelope_not_message by auto
    with cb(1) relay show ?thesis
      by auto
  qed
  with invalid_file_type_iff[of f] invalid_type_message_eq[of f] show ?thesis
    by blast
qed

theorem validation_rule_witness:
  "reaches_parsing pdf_request \<and> single_upload pdf_request pdf_file \<and>
   responses (trace (handler pdf_request)) =
     [Respond 400 (message_body (invalid_type_message pdf_file))] \<and>
   \<not> backend_called (trace (handler pdf_request)) \<and>
   unlinked_before_response (filepath pdf_file) (trace (handler pdf_request)) \<and>
   invalid_type_message pdf_file =
     ''Invalid file type. Please upload a .csv, .xes, or .xlsx file. Received: application/pdf''"
proof -
  have p: "reaches_parsing pdf_request" and u: "single_upload pdf_request pdf_file"
    using pdf_request_reaches by simp_all
  have t: "truthy_str (mimetype pdf_file)" "the (mimetype pdf_file) = ''application/pdf''"
    by (simp_all add: pdf_file_def)
  from validation_rule[OF p u] pdf_file_invalid t p u show ?thesis
    by simp
qed

text \<open>
  C3 (as stated) fails: a file named \<open>orders.csv\<close> whose part declares no content type has an
  allowed extension, and is refused with a 400 all the same.
\<close>

theorem validation_rule_counterexample:
  "originalFilename untyped_csv_file = Some ''orders.csv'' \<and>
   mimetype untyped_csv_file = None \<and>
   fileExt untyped_csv_file \<in> set allowedExtensions \<and>
   responses (trace (handler untyped_request)) =
     [Respond 400 (message_body
        ''Invalid file type. Please upload a .csv, .xes, or .xlsx file. Received: .csv'')] \<and>
   \<not> backend_called (trace (handler untyped_request))"
proof -
  have m: "invalid_type_message untyped_csv_file =
      ''Invalid file type. Please upload a .csv, .xes, or .xlsx file. Received: .csv''"
    by (simp add: invalid_type_message_def untyped_csv_file_ext)
       (simp add: untyped_csv_file_def)
  show ?thesis
    by (simp add: untyped_request_run upload_prefix_def m untyped_csv_file_ext
          allowedExtensions_def)
       (simp add: untyped_csv_file_def csv_file_def)
qed

text \<open>
  C4 (as amended). When the backend answers with a success status (200 to 299) and a body
  that is JSON, the gateway answers 200 with that body as it is, whether or not it has a
  \<open>data\<close> field: nothing is added to it and nothing is checked in it.
\<close>

theorem successful_reply_forwarded:
  assumes "reaches_relay w f"
    and "fetch_result w = FetchResponse status (BodyJson d)"
    and "ok status"
  shows "responses (trace (handler w)) = [Respond 200 d]"
proof -
  from relay_start[OF assms(1)] obtain s tok url where
    h: "handler w = finally_cleanup w f (relay w tok url f s)" and
    f: "filepath f \<noteq> []" "filepath f \<in> files s" and q: "quiet (trace s)"
    by blast
  from f q assms(2,3) show ?thesis
    unfolding h by (simp add: finally_cleanup_def relay_def try_relay_def Let_def)
qed

theorem successful_reply_forwarded_witness:
  "reaches_relay good_request csv_file \<and>
   fetch_result good_request = FetchResponse 200 (BodyJson full_reply) \<and> ok 200 \<and>
   responses (trace (handler good_request)) = [Respond 200 full_reply]"
proof -
  have r: "fetch_result good_request = FetchResponse 200 (BodyJson full_reply)"
    by (simp add: good_request_def)
  have o: "ok 200"
    by (simp add: ok_def)
  from successful_reply_forwarded[OF good_request_relay r o] r o good_request_relay
  show ?thesis by simp
qed

text \<open>
  C4 (as stated) fails: a 200 reply without \<open>data\<close> is forwarded with status 200, not turned
  into a 500.
\<close>

theorem successful_reply_counterexample:
  "fetch_result sparse_request = FetchResponse 200 (BodyJson sparse_reply) \<and>
   get_prop sparse_reply ''data'' = Inr None \<and>
   responses (trace (handler sparse_request)) = [Respond 200 sparse_reply]"
  by (simp add: sparse_request_run relay_prefix_def upload_prefix_def)
     (simp add: sparse_request_def sparse_reply_def)

text \<open>
  C5 (as amended). Whenever the request ends without a call of the backend (method not
  allowed, unauthenticated, upload directory, malformed upload, no or several files, invalid
  file type, missing backend URL, unreadable staged file) or the relay fails at the level of
  the connection, exactly one response is sent, with a status among 400, 401, 405, 500 and
  502, and its body is a JSON object with a non-empty \<open>message\<close> and nothing else: it has
  no \<open>success\<close> field.
\<close>

theorem gateway_failure_body:
  assumes "\<not> backend_called (trace (handler w)) \<or> transport_cause (fetch_result w) \<noteq> None"
  shows "\<exists>code m. responses (trace (handler w)) = [Respond code (message_body m)] \<and> m \<noteq> [] \<and>
      code \<in> {400, 401, 405, 500, 502} \<and> get_prop (message_body m) ''success'' = Inr None"
proof (cases "reaches_parsing w")
  case False
  then consider (verb) "req_method w \<noteq> ''POST''"
    | (user) "req_method w = ''POST''" "\<not> truthy_str (userId w)"
    | (token) "req_method w = ''POST''" "truthy_str (userId w)" "\<not> truthy_str (token w)"
    | (mkdir) "req_method w = ''POST''" "truthy_str (userId w)" "truthy_str (token w)"
        "tempUploadDir w \<notin> fs0 w" "mkdir_fails w"
    unfolding reaches_parsing_def by blast
  then show ?thesis
  proof cases
    case verb
    then show ?thesis
      by (intro message_onlyI[where code = 405 and m = "''Method Not Allowed''"])
         (simp_all add: handler_def)
  next
    case user
    then show ?thesis
      by (intro message_onlyI[where code = 401 and m = "''Unauthorized: No user ID found.''"])
         (simp_all add: handler_def)
  next
    case token
    then show ?thesis
      by (intro message_onlyI[where code = 401 and m = "''Unauthorized: No token available.''"])
         (simp_all add: handler_def)
  next
    case mkdir
    then show ?thesis
      by (intro message_onlyI[where code = 500
            and m = "''Server configuration error for file uploads.''"])
         (simp_all add: handler_def prepare_upload_def Let_def)
  qed
next
  case True
  show ?thesis
  proof (cases "parse_result w")
    case (ParseError m)
    with True show ?thesis
      by (intro message_onlyI[where code = 500 and m = "''File upload failed: '' @ m"])
         (auto simp: reaches_parsing_def handler_def prepare_upload_def parse_form_def Let_def)
  next
    case (Parsed fl)
    from handler_parsing[OF True Parsed] obtain s where
      h: "handler w = on_parsed w (the (token w)) fl s" and
      st: "staged_paths fl \<subseteq> files s" and q: "quiet (trace s)"
      by blast
    consider (none) "map_of fl ''eventLogFile'' = None"
      | (many) fs where "map_of fl ''eventLogFile'' = Some (Multiple fs)"
      | (nopath) f where "map_of fl ''eventLogFile'' = Some (Single f)" "filepath f = []"
      | (invalid) f where "map_of fl ''eventLogFile'' = Some (Single f)" "filepath f \<noteq> []"
          "invalid_file_type f"
      | (config) f where "map_of fl ''eventLogFile'' = Some (Single f)" "filepath f \<noteq> []"
          "\<not> invalid_file_type f" "\<not> truthy_str (backend_url w)"
      | (relay) f where "map_of fl ''eventLogFile'' = Some (Single f)" "filepath f \<noteq> []"
          "\<not> invalid_file_type f" "truthy_str (backend_url w)"
    proof (cases "map_of fl ''eventLogFile''")
      case None
      then show ?thesis using none by blast
    next
      case (Some u)
      then show ?thesis
        using many nopath invalid config relay by (cases u) blast+
    qed
    then show ?thesis
    proof cases
      case none
      with q show ?thesis
        unfolding h
        by (intro message_onlyI[where code = 400 and m = no_file_message])
           (simp_all add: on_parsed_def no_file_message_def)
    next
      case many
      with q show ?thesis
        unfolding h
        by (intro message_onlyI[where code = 400 and m = no_file_message])
           (simp_all add: on_parsed_def no_file_message_def)
    next
      case nopath
      with q show ?thesis
        unfolding h
        by (intro message_onlyI[where code = 400 and m = no_file_message])
           (simp_all add: on_parsed_def no_file_message_def)
    next
      case invalid
      with q show ?thesis
        unfolding h
        by (intro message_onlyI[where code = 400 and m = "invalid_type_message f"])
           (simp_all add: on_parsed_def invalid_type_message_def)
    next
      case config
      with q show ?thesis
        unfolding h
        by (intro message_onlyI[where code = 500
              and m = "''Server configuration error: Backend API URL missing.''"])
           (simp_all add: on_parsed_def)
    next
      case relay
      from staged_member[OF relay(1,2)] st have p: "filepath f \<in> files s" by blast
      from relay have r: "handler w =
          finally_cleanup w f (relay w (the (token w)) (the (backend_url w)) f s)"
        unfolding h by (simp add: on_parsed_def)
      from relay_calls_backend[OF p] assms r obtain m where
         m: "transport_cause (fetch_result w) = Some m" by auto
      then consider (a) "fetch_result w = FetchThrows m"
         | (b) status where "fetch_result w = FetchResponse status (BodyInvalid m)"
         by (cases "fetch_result w" rule: transport_cause.cases) auto
      then show ?thesis
      proof cases
        case a
        with p q relay(2) show ?thesis
          unfolding r
          by (intro message_onlyI[where code = 502
               and m = "''Bad Gateway: Could not connect to backend service. '' @ m"])
             (simp_all add: finally_cleanup_def relay_def try_relay_def Let_def
                bad_gateway_body_def)
      next
        case b
        with p q relay(2) show ?thesis
          unfolding r
          by (intro message_onlyI[where code = 502
               and m = "''Bad Gateway: Could not connect to backend service. '' @ m"])
             (simp_all add: finally_cleanup_def relay_def try_relay_def Let_def
                bad_gateway_body_def)
      qed
    qed
  qed
qed

theorem gateway_failure_body_witness:
  "transport_cause (fetch_result refused_request) = Some ''fetch failed'' \<and>
   (\<exists>code m. responses (trace (handler refused_request)) = [Respond code (message_body m)] \<and>
      m \<noteq> [] \<and> code \<in> {400, 401, 405, 500, 502} \<and>
      get_prop (message_body m) ''success'' = Inr None)"
proof -
  have t: "transport_cause (fetch_result refused_request) = Some ''fetch failed''"
    by (simp add: refused_request_def)
  from gateway_failure_body[of refused_request] t show ?thesis
    by simp
qed

text \<open>
  C5 (as stated) fails: the body of the 401 sent to a caller without a session has a
  \<open>message\<close> and no \<open>success\<close> field.
\<close>

theorem gateway_failure_body_counterexample:
  "responses (trace (handler anonymous_request)) =
     [Respond 401 (JObj [(''message'', JStr ''Unauthorized: No user ID found.'')])] \<and>
   get_prop (JObj [(''message'', JStr ''Unauthorized: No user ID found.'')]) ''success'' =
     Inr None"
  by (simp add: anonymous_request_run message_body_def)

text \<open>
  C6 (as amended). When the backend answers with a failure status and a JSON body other than
  \<open>null\<close>, the gateway answers with the same status and an envelope in which \<open>success\<close> is
  the reply's own \<open>success\<close> whenever the reply has one, \<open>message\<close> is the reply's own
  \<open>message\<close> whenever that is truthy (an empty or otherwise falsy message is replaced by the
  fixed text), and \<open>data\<close> is the reply's \<open>data\<close> unchanged, absent when the reply has none.
  Each field is forwarded whether or not the others are there. When the body is \<open>null\<close> the
  status is not forwarded: the answer is the 502 of the catch block.
\<close>

theorem failed_reply_forwarded:
  assumes "reaches_relay w f"
    and "fetch_result w = FetchResponse status (BodyJson d)"
    and "\<not> ok status"
  shows "(d = JNull \<longrightarrow>
            responses (trace (handler w)) =
              [Respond 502 (bad_gateway_body (null_read_error ''success''))]) \<and>
     (d \<noteq> JNull \<longrightarrow>
        (\<exists>env. responses (trace (handler w)) = [Respond status env] \<and>
           (\<forall>v. get_prop d ''success'' = Inr (Some v) \<longrightarrow>
                  get_prop env ''success'' = Inr (Some v)) \<and>
           (\<forall>v. get_prop d ''message'' = Inr (Some v) \<longrightarrow>
                  get_prop env ''message'' =
                    Inr (Some (if truthy v then v
                               else JStr ''Error processing file with backend.''))) \<and>
           get_prop env ''data'' = get_prop d ''data''))"
proof (cases "d = JNull")
  case True
  with relay_null_body[OF assms(1) _ assms(3)] assms(2) show ?thesis
    by simp
next
  case False
  from envelope_fields[OF False] obtain env where
    e: "error_envelope d = Inr env" and
    g: "get_prop env ''success'' =
          Inr (Some (case get_prop d ''success'' of Inr (Some v) \<Rightarrow> v | _ \<Rightarrow> JBool False))"
       "get_prop env ''message'' =
          Inr (Some (case get_prop d ''message'' of
                       Inr (Some v) \<Rightarrow> if truthy v then v else JStr default_error_message
                     | _ \<Rightarrow> JStr default_error_message))"
       "get_prop env ''data'' = get_prop d ''data''"
    by blast
  from relay_failed_body[OF assms e] have
    r: "responses (trace (handler w)) = [Respond status env]" .
  have "(\<forall>v. get_prop d ''success'' = Inr (Some v) \<longrightarrow>
                  get_prop env ''success'' = Inr (Some v)) \<and>
           (\<forall>v. get_prop d ''message'' = Inr (Some v) \<longrightarrow>
                  get_prop env ''message'' =
                    Inr (Some (if truthy v then v
                               else JStr ''Error processing file with backend.''))) \<and>
           get_prop env ''data'' = get_prop d ''data''"
    using g by (simp add: default_error_message_def)
  with r False show ?thesis
    by blast
qed

theorem failed_reply_forwarded_witness:
  "reaches_relay partial_request csv_file \<and>
   fetch_result partial_request = FetchResponse 500 (BodyJson (JObj partial_reply)) \<and>
   \<not> ok 500 \<and>
   (\<exists>env. responses (trace (handler partial_request)) = [Respond 500 env] \<and>
      get_prop env ''success'' = Inr (Some (JBool False)) \<and>
      get_prop env ''message'' = Inr (Some (JStr ''LLM timeout'')) \<and>
      get_prop env ''data'' = Inr (Some partial_data)) \<and>
   reaches_relay message_only_request csv_file \<and>
   fetch_result message_only_request = FetchResponse 500 (BodyJson message_only_reply) \<and>
   get_prop message_only_reply ''success'' = Inr None \<and>
   (\<exists>env. responses (trace (handler message_only_request)) = [Respond 500 env] \<and>
      get_prop env ''message'' = Inr (Some (JStr ''LLM timeout'')) \<and>
      get_prop env ''data'' = Inr None)"
proof -
  have a: "reaches_relay partial_request csv_file"
    unfolding partial_request_def by (rule example_relay_reaches)
  have r: "fetch_result partial_request = FetchResponse 500 (BodyJson (JObj partial_reply))"
    by (simp add: partial_request_def)
  have o: "\<not> ok 500"
    by (simp add: ok_def)
  have k: "get_prop (JObj partial_reply) ''success'' = Inr (Some (JBool False))"
    "get_prop (JObj partial_reply) ''message'' = Inr (Some (JStr ''LLM timeout''))"
    "get_prop (JObj partial_reply) ''data'' = Inr (Some partial_data)"
    by (simp_all add: partial_reply_def)
  from failed_reply_forwarded[OF a r o] obtain env where
    "responses (trace (handler partial_request)) = [Respond 500 env]"
    "get_prop env ''success'' = Inr (Some (JBool False))"
    "get_prop env ''message'' = Inr (Some (JStr ''LLM timeout''))"
    "get_prop env ''data'' = Inr (Some partial_data)"
    using k by auto
  then have first: "\<exists>env. responses (trace (handler partial_request)) = [Respond 500 env] \<and>
      get_prop env ''success'' = Inr (Some (JBool False)) \<and>
      get_prop env ''message'' = Inr (Some (JStr ''LLM timeout'')) \<and>
      get_prop env ''data'' = Inr (Some partial_data)"
    by blast
  have a': "reaches_relay message_only_request csv_file"
    unfolding message_only_request_def by (rule example_relay_reaches)
  have r': "fetch_result message_only_request =
      FetchResponse 500 (BodyJson message_only_reply)"
    by (simp add: message_only_request_def)
  have k': "get_prop message_only_reply ''success'' = Inr None"
    "get_prop message_only_reply ''message'' = Inr (Some (JStr ''LLM timeout''))"
    "get_prop message_only_reply ''data'' = Inr None"
    "message_only_reply \<noteq> JNull"
    by (simp_all add: message_only_reply_def)
  from failed_reply_forwarded[OF a' r' o] k' have
    second: "\<exists>env. responses (trace (handler message_only_request)) = [Respond 500 env] \<and>
      get_prop env ''message'' = Inr (Some (JStr ''LLM timeout'')) \<and>
      get_prop env ''data'' = Inr None"
    by auto
  from first second a r o a' r' k'(1) show ?thesis
    by blast
qed

text \<open>
  C6 (as stated) fails twice: the empty message of a 500 reply is not forwarded, the fixed
  text is sent in its place; and a 500 reply whose body is \<open>null\<close> is answered with 502, not
  with the backend's status.
\<close>

theorem failed_reply_counterexample:
  "fetch_result empty_message_request = FetchResponse 500 (BodyJson empty_message_reply) \<and>
   get_prop empty_message_reply ''message'' = Inr (Some (JStr [])) \<and>
   responses (trace (handler empty_message_request)) =
     [Respond 500 (JObj [(''success'', JBool False),
                         (''message'', JStr ''Error processing file with backend.'')])] \<and>
   fetch_result null_request = FetchResponse 500 (BodyJson JNull) \<and>
   statuses (trace (handler null_request)) = [502]"
  by (simp add: empty_message_request_run null_request_run relay_prefix_def upload_prefix_def
        default_error_message_def)
     (simp add: empty_message_request_def empty_message_reply_def null_request_def)

text \<open>
  C7 (as amended). When the multipart body of a request that reached parsing cannot be
  parsed, the only response is a 500 whose message is \<open>File upload failed: \<close> followed by the
  message of the parser's error.
\<close>

theorem parse_failure_500:
  assumes "reaches_parsing w" and "parse_result w = ParseError m"
  shows "responses (trace (handler w)) =
     [Respond 500 (message_body (''File upload failed: '' @ m))]"
  using assms
  by (auto simp: reaches_parsing_def handler_def prepare_upload_def parse_form_def Let_def)

theorem parse_failure_500_witness:
  "reaches_parsing malformed_request \<and>
   parse_result malformed_request = ParseError ''options.maxFileSize exceeded'' \<and>
   responses (trace (handler malformed_request)) =
     [Respond 500 (message_body (''File upload failed: '' @ ''options.maxFileSize exceeded''))]"
proof -
  have p: "reaches_parsing malformed_request"
    by (simp add: reaches_parsing_def malformed_request_def good_request_def)
  have e: "parse_result malformed_request = ParseError ''options.maxFileSize exceeded''"
    by (simp add: malformed_request_def)
  from parse_failure_500[OF p e] p e show ?thesis
    by blast
qed

text \<open>C7 (as stated) fails: the status sent after a failed parse is 500, not 400.\<close>

theorem parse_failure_counterexample:
  "parse_result malformed_request = ParseError ''options.maxFileSize exceeded'' \<and>
   statuses (trace (handler malformed_request)) = [500]"
  by (simp add: malformed_request_run upload_prefix_def)
     (simp add: malformed_request_def)

text \<open>
  C8 (as amended). When the relay fails at the level of the connection (\<open>fetch\<close> rejects, or
  the body of the response is not JSON), the only response is a 502 whose message carries the
  cause, and the staged file is unlinked exactly once, after that response was sent; unless
  the file system refuses the removal, the staged path does not exist once the handler has
  finished.
\<close>

theorem transport_failure_502:
  assumes "reaches_relay w f" and "transport_cause (fetch_result w) = Some m"
  shows "responses (trace (handler w)) = [Respond 502 (bad_gateway_body m)] \<and>
     count_list (trace (handler w)) (UnlinkSync (filepath f)) = 1 \<and>
     unlinked_after_response (filepath f) (trace (handler w)) \<and>
     \<not> unlinked_before_response (filepath f) (trace (handler w)) \<and>
     (filepath f \<notin> unlink_denied w \<longrightarrow> filepath f \<notin> files (handler w))"
proof -
  from relay_start[OF assms(1)] obtain s tok url where
    h: "handler w = finally_cleanup w f (relay w tok url f s)" and
    f: "filepath f \<noteq> []" "filepath f \<in> files s" and q: "quiet (trace s)"
    by blast
  from assms(2) consider (a) "fetch_result w = FetchThrows m"
    | (b) status where "fetch_result w = FetchResponse status (BodyInvalid m)"
    by (cases "fetch_result w" rule: transport_cause.cases) auto
  then show ?thesis
  proof cases
    case a
    with f q show ?thesis
      unfolding h by (simp add: finally_cleanup_def relay_def try_relay_def Let_def)
  next
    case b
    with f q show ?thesis
      unfolding h by (simp add: finally_cleanup_def relay_def try_relay_def Let_def)
  qed
qed

theorem transport_failure_502_witness:
  "reaches_relay refused_request csv_file \<and>
   transport_cause (fetch_result refused_request) = Some ''fetch failed'' \<and>
   responses (trace (handler refused_request)) =
     [Respond 502 (bad_gateway_body ''fetch failed'')] \<and>
   count_list (trace (handler refused_request)) (UnlinkSync (filepath csv_file)) = 1 \<and>
   unlinked_after_response (filepath csv_file) (trace (handler refused_request)) \<and>
   filepath csv_file \<notin> files (handler refused_request)"
proof -
  have a: "reaches_relay refused_request csv_file"
    unfolding refused_request_def by (rule example_relay_reaches)
  have t: "transport_cause (fetch_result refused_request) = Some ''fetch failed''"
    by (simp add: refused_request_def)
  have u: "filepath csv_file \<notin> unlink_denied refused_request"
    by (simp add: refused_request_def good_request_def)
  from transport_failure_502[OF a t] a t u show ?thesis
    by blast
qed

text \<open>
  C8 (as stated) fails in its last part: when the backend refuses the connection, the 502 is
  sent first and the staged file is unlinked afterwards.
\<close>

theorem transport_failure_counterexample:
  "fetch_result refused_request = FetchThrows ''fetch failed'' \<and>
   statuses (trace (handler refused_request)) = [502] \<and>
   \<not> unlinked_before_response (filepath csv_file) (trace (handler refused_request)) \<and>
   unlinked_after_response (filepath csv_file) (trace (handler refused_request))"
  by (simp add: refused_request_run relay_prefix_def upload_prefix_def)
     (simp add: refused_request_def)

text \<open>
  C10 (as amended). When the backend answers with a failure status and a JSON body other than
  \<open>null\<close> (an object, but also an array, a string, a number or a boolean), the forwarded
  envelope always has a \<open>success\<close> and a \<open>message\<close>: \<open>success\<close> is \<open>false\<close> when the reply
  has none, \<open>message\<close> is the fixed text \<open>Error processing file with backend.\<close> when the
  reply has none. When the body is \<open>null\<close>, reading \<open>success\<close> raises and nothing is
  substituted or forwarded: the only response is the 502 of the catch block, whose body has a
  \<open>message\<close> and no \<open>success\<close>.
\<close>

theorem missing_fields_defaulted:
  assumes "reaches_relay w f"
    and "fetch_result w = FetchResponse status (BodyJson d)"
    and "\<not> ok status"
  shows "(d = JNull \<longrightarrow>
            responses (trace (handler w)) =
              [Respond 502 (JObj [(''message'',
                 JStr (''Bad Gateway: Could not connect to backend service. '' @
                       null_read_error ''success''))])]) \<and>
     (d \<noteq> JNull \<longrightarrow>
        (\<exists>s m. responses (trace (handler w)) =
           [Respond status (JObj ([(''success'', s), (''message'', m)] @
              (case get_prop d ''data'' of Inr (Some v) \<Rightarrow> [(''data'', v)] | _ \<Rightarrow> [])))] \<and>
           (get_prop d ''success'' = Inr None \<longrightarrow> s = JBool False) \<and>
           (get_prop d ''message'' = Inr None \<longrightarrow>
              m = JStr ''Error processing file with backend.'')))"
proof (cases "d = JNull")
  case True
  with relay_null_body[OF assms(1) _ assms(3)] assms(2) show ?thesis
    by (simp add: bad_gateway_body_def message_body_def)
next
  case False
  from envelope_total[OF False] obtain s m where
    e: "error_envelope d = Inr (JObj ([(''success'', s), (''message'', m)] @
            (case get_prop d ''data'' of Inr (Some v) \<Rightarrow> [(''data'', v)] | _ \<Rightarrow> [])))"
     and d: "get_prop d ''success'' = Inr None \<longrightarrow> s = JBool False"
       "get_prop d ''message'' = Inr None \<longrightarrow> m = JStr default_error_message"
    by blast
  from relay_failed_body[OF assms e] d False show ?thesis
    unfolding default_error_message_def by blast
qed

theorem missing_fields_defaulted_witness:
  "reaches_relay bare_request csv_file \<and>
   fetch_result bare_request = FetchResponse 503 (BodyJson (JObj [])) \<and> \<not> ok 503 \<and>
   responses (trace (handler bare_request)) =
     [Respond 503 (JObj [(''success'', JBool False),
                         (''message'', JStr ''Error processing file with backend.'')])]"
proof -
  have a: "reaches_relay bare_request csv_file"
    unfolding bare_request_def by (rule example_relay_reaches)
  have r: "fetch_result bare_request = FetchResponse 503 (BodyJson (JObj []))"
    by (simp add: bare_request_def)
  have o: "\<not> ok 503"
    by (simp add: ok_def)
  from missing_fields_defaulted[OF a r o] a r o show ?thesis
    by auto
qed

text \<open>
  C10 (as stated) fails: a 500 reply whose body is \<open>null\<close> has no \<open>success\<close> and no
  \<open>message\<close>, and the response it gets is a 502 whose body has no \<open>success\<close>; neither
  \<open>false\<close> nor the fixed text is substituted.
\<close>

theorem missing_fields_counterexample:
  "fetch_result null_request = FetchResponse 500 (BodyJson JNull) \<and>
   responses (trace (handler null_request)) =
     [Respond 502 (JObj [(''message'',
        JStr (''Bad Gateway: Could not connect to backend service. '' @
              null_read_error ''success''))])] \<and>
   get_prop (JObj [(''message'',
        JStr (''Bad Gateway: Could not connect to backend service. '' @
              null_read_error ''success''))]) ''success'' = Inr None"
  by (simp add: null_request_run relay_prefix_def upload_prefix_def bad_gateway_body_def
        message_body_def)
     (simp add: null_request_def)

end
